theory Spec2Isabelle
  imports Main "HOL-Library.AList"
begin

section \<open>Python values and exceptions\<close>

text \<open>
  The module \<^verbatim>\<open>em_framework/outcomes.py\<close> is Python 2 code (it uses
  \<^verbatim>\<open>basestring\<close> and \<^verbatim>\<open>__metaclass__\<close>). The values that reach it are
  modelled by one datatype: \<^verbatim>\<open>None\<close>, integers (Python's \<^verbatim>\<open>bool\<close> is a subclass
  of \<^verbatim>\<open>int\<close>, so \<^verbatim>\<open>False\<close> and \<^verbatim>\<open>True\<close> are \<open>PInt 0\<close> and \<open>PInt 1\<close>),
  strings, lists, and callables. A callable is a reference (a function has identity, and
  \<^verbatim>\<open>==\<close> on functions is identity); what it does when called is given by an
  environment. On this universe Python's \<^verbatim>\<open>==\<close> is HOL's equality.
\<close>

datatype pyval =
    PNone
  | PInt int
  | PStr string
  | PList "pyval list"
  | PFun string

datatype exn =
    ValueError string
  | TypeError string
  | AttributeError string
  | ValueErrorSeries "string list"
  | IndexError string
  | OtherError string

text \<open>
  The behaviour of every callable: positional arguments and keyword arguments in, a value
  or a raised exception out.
\<close>

type_synonym fenv = "string \<Rightarrow> pyval list \<Rightarrow> (string \<rightharpoonup> pyval) \<Rightarrow> exn + pyval"

fun py_truthy :: "pyval \<Rightarrow> bool" where
  "py_truthy PNone = False"
| "py_truthy (PInt i) = (i \<noteq> 0)"
| "py_truthy (PStr s) = (s \<noteq> [])"
| "py_truthy (PList xs) = (xs \<noteq> [])"
| "py_truthy (PFun f) = True"

text \<open>\<^verbatim>\<open>isinstance(v, basestring)\<close>\<close>

fun is_basestring :: "pyval \<Rightarrow> bool" where
  "is_basestring (PStr s) = True"
| "is_basestring v = False"

text \<open>\<^verbatim>\<open>callable(v)\<close>\<close>

fun callable :: "pyval \<Rightarrow> bool" where
  "callable (PFun f) = True"
| "callable v = False"

text \<open>
  Iterating a value: a string yields its characters, a list its elements, anything else
  raises \<^verbatim>\<open>TypeError\<close>.
\<close>

fun py_iter :: "pyval \<Rightarrow> exn + pyval list" where
  "py_iter (PStr s) = Inr (map (\<lambda>c. PStr [c]) s)"
| "py_iter (PList xs) = Inr xs"
| "py_iter v = Inl (TypeError ''object is not iterable'')"

text \<open>
  \<^verbatim>\<open>len(v)\<close>; \<open>None\<close> stands for the \<^verbatim>\<open>TypeError\<close> of a value that has no
  length, the only way \<^verbatim>\<open>len\<close> fails here.
\<close>

fun py_len :: "pyval \<Rightarrow> nat option" where
  "py_len (PStr s) = Some (length s)"
| "py_len (PList xs) = Some (length xs)"
| "py_len v = None"

text \<open>\<^verbatim>\<open>v[i]\<close> for an index \<open>i \<ge> 0\<close>.\<close>

fun py_getitem :: "pyval \<Rightarrow> nat \<Rightarrow> exn + pyval" where
  "py_getitem (PStr s) i =
     (if i < length s then Inr (PStr [s ! i]) else Inl (IndexError ''string index out of range''))"
| "py_getitem (PList xs) i =
     (if i < length xs then Inr (xs ! i) else Inl (IndexError ''list index out of range''))"
| "py_getitem v i = Inl (TypeError ''object is not subscriptable'')"

text \<open>A list cannot be a dictionary key; every other value here can.\<close>

fun py_hashable :: "pyval \<Rightarrow> bool" where
  "py_hashable (PList xs) = False"
| "py_hashable v = True"

text \<open>
  Calling a value. A value that is not callable raises \<^verbatim>\<open>TypeError\<close>, and so does a
  call \<^verbatim>\<open>f(**kwargs)\<close> whose dictionary has a key that is not a string.
\<close>

fun str_key :: "pyval \<times> pyval \<Rightarrow> string \<times> pyval" where
  "str_key (PStr s, v) = (s, v)"
| "str_key (k, v) = ([], v)"

definition py_call :: "fenv \<Rightarrow> pyval \<Rightarrow> pyval list \<Rightarrow> (pyval \<times> pyval) list \<Rightarrow> exn + pyval" where
  "py_call fe f args kwargs =
     (case f of
        PFun n \<Rightarrow>
          (if list_all (\<lambda>kv. is_basestring (fst kv)) kwargs
           then fe n args (map_of (map str_key kwargs))
           else Inl (TypeError ''keywords must be strings''))
      | _ \<Rightarrow> Inl (TypeError ''object is not callable''))"

text \<open>\<^verbatim>\<open>'{}'.format(n)\<close> for a length, and for \<^verbatim>\<open>None\<close>.\<close>

fun string_of_nat :: "nat \<Rightarrow> string" where
  "string_of_nat n =
     (if n < 10 then [''0123456789'' ! n]
      else string_of_nat (n div 10) @ [''0123456789'' ! (n mod 10)])"

fun format_len :: "nat option \<Rightarrow> string" where
  "format_len None = ''None''"
| "format_len (Some n) = string_of_nat n"

section \<open>Outcome objects\<close>

text \<open>
  An instance is its class and its instance dictionary \<^verbatim>\<open>__dict__\<close>, an association
  list in the order in which \<^verbatim>\<open>keys()\<close> lists it.
\<close>

datatype outcome_class = ScalarOutcome | TimeSeriesOutcome

record obj =
  cls :: outcome_class
  dict :: "(string \<times> pyval) list"

text \<open>\<^verbatim>\<open>self.key = v\<close> for a name that is no property.\<close>

definition setattr :: "obj \<Rightarrow> string \<Rightarrow> pyval \<Rightarrow> obj" where
  "setattr self key v = self\<lparr>dict := AList.update key v (dict self)\<rparr>"

definition MINIMIZE :: pyval where "MINIMIZE = PInt (- 1)"
definition MAXIMIZE :: pyval where "MAXIMIZE = PInt 1"
definition INFO :: pyval where "INFO = PInt 0"

text \<open>
  What the classes hold besides the property \<^verbatim>\<open>variable_name\<close>: the three constants,
  and the members whose values are not modelled, which are the methods of
  \<^verbatim>\<open>AbstractOutcome\<close> and the special members that a Python 2 class with the
  metaclass \<^verbatim>\<open>ABCMeta\<close> has (bound methods, classes, docstrings, the module name,
  the caches of \<^verbatim>\<open>ABCMeta\<close>). A lookup finds such a member, and an instance attribute
  is taken not to be equal to one: of the values of the model only a copy of a docstring,
  of the module name or of the cache version would be. Instance dictionaries with a key
  \<^verbatim>\<open>__class__\<close>, \<^verbatim>\<open>__dict__\<close> or \<^verbatim>\<open>__weakref__\<close> are not modelled.
\<close>

definition class_constants :: "(string \<times> pyval) list" where
  "class_constants = [(''MINIMIZE'', MINIMIZE), (''MAXIMIZE'', MAXIMIZE), (''INFO'', INFO)]"

definition class_members :: "string list" where
  "class_members =
     [''process'', ''__init__'', ''__eq__'', ''__metaclass__'', ''__doc__'', ''__module__'',
      ''__class__'', ''__dict__'', ''__weakref__'', ''__delattr__'', ''__format__'',
      ''__getattribute__'', ''__hash__'', ''__new__'', ''__reduce__'', ''__reduce_ex__'',
      ''__repr__'', ''__setattr__'', ''__sizeof__'', ''__str__'', ''__subclasshook__'',
      ''__abstractmethods__'', ''_abc_cache'', ''_abc_negative_cache'',
      ''_abc_negative_cache_version'', ''_abc_registry'']"

text \<open>
  The value found under a name that is no property: the one of the instance dictionary,
  else the constant of the class.
\<close>

definition find_attribute :: "obj \<Rightarrow> string \<Rightarrow> pyval option" where
  "find_attribute self key =
     (case map_of (dict self) key of
        Some v \<Rightarrow> Some v
      | None \<Rightarrow> map_of class_constants key)"

text \<open>
  Modelled from the spec: \<^verbatim>\<open>NamedObject\<close> of \<^verbatim>\<open>em_framework/util.py\<close> is not
  among the sources; the spec says that it supplies a \<^verbatim>\<open>name\<close> attribute.
\<close>

definition NamedObject_init :: "obj \<Rightarrow> pyval \<Rightarrow> obj" where
  "NamedObject_init self name = setattr self ''name'' name"

text \<open>The property \<^verbatim>\<open>variable_name\<close>: getter and setter.\<close>

definition variable_name :: "obj \<Rightarrow> exn + pyval" where
  "variable_name self =
     (case find_attribute self ''_variable_name'' of
        None \<Rightarrow> Inl (AttributeError ''_variable_name'')
      | Some v \<Rightarrow>
          if v \<noteq> PNone then Inr v
          else (case find_attribute self ''name'' of
                  None \<Rightarrow> Inl (AttributeError ''name'')
                | Some n \<Rightarrow> Inr n))"

definition variable_name_setter :: "obj \<Rightarrow> pyval \<Rightarrow> obj" where
  "variable_name_setter self name = setattr self ''_variable_name'' name"

text \<open>
  \<^verbatim>\<open>getattr(self, key)\<close> and \<^verbatim>\<open>hasattr(self, key)\<close>. The property of the class
  comes before the instance dictionary, the other attributes of the class after it.
  \<open>getattr\<close> is \<open>None\<close> when the lookup raises and when it finds a member that is no
  value of the model; Python 2's \<^verbatim>\<open>hasattr\<close> is false exactly when the lookup raises.
\<close>

definition getattr :: "obj \<Rightarrow> string \<Rightarrow> pyval option" where
  "getattr self key =
     (if key = ''variable_name''
      then (case variable_name self of Inl e \<Rightarrow> None | Inr v \<Rightarrow> Some v)
      else find_attribute self key)"

definition hasattr :: "obj \<Rightarrow> string \<Rightarrow> bool" where
  "hasattr self key =
     (getattr self key \<noteq> None \<or> (key \<noteq> ''variable_name'' \<and> key \<in> set class_members))"

text \<open>
  \<^verbatim>\<open>AbstractOutcome.__init__\<close>. The test of the elements of \<^verbatim>\<open>variable_name\<close> is
  only reached for a truthy value that is not a string, and iterating a value that is
  not iterable raises \<^verbatim>\<open>TypeError\<close> there.
\<close>

definition AbstractOutcome_init ::
  "obj \<Rightarrow> pyval \<Rightarrow> pyval \<Rightarrow> pyval \<Rightarrow> pyval \<Rightarrow> exn + obj" where
  "AbstractOutcome_init self0 name kind var_name func =
     (let self = NamedObject_init self0 name in
      if func \<noteq> PNone \<and> \<not> callable func
      then Inl (ValueError ''function must be a callable'')
      else
        (case (if py_truthy var_name \<and> \<not> is_basestring var_name
               then (case py_iter var_name of
                       Inl e \<Rightarrow> Inl e
                     | Inr elems \<Rightarrow>
                         if \<not> list_all is_basestring elems
                         then Inl (ValueError ''variable name must be a string or list of strings'')
                         else Inr ())
               else Inr ()) of
           Inl e \<Rightarrow> Inl e
         | Inr u \<Rightarrow>
             Inr (setattr (variable_name_setter (setattr self ''kind'' kind) var_name)
                    ''function'' func)))"

definition ScalarOutcome_init :: "pyval \<Rightarrow> pyval \<Rightarrow> pyval \<Rightarrow> pyval \<Rightarrow> exn + obj" where
  "ScalarOutcome_init name kind var_name func =
     AbstractOutcome_init \<lparr>cls = ScalarOutcome, dict = []\<rparr> name kind var_name func"

text \<open>
  \<^verbatim>\<open>TimeSeriesOutcome.__init__\<close> tests \<^verbatim>\<open>callable(reduce)\<close>. The constructor has
  no parameter of that name and the module binds none, so the name is Python 2's builtin
  function \<^verbatim>\<open>reduce\<close>.
\<close>

definition reduce :: pyval where
  "reduce = PFun ''reduce''"

definition TimeSeriesOutcome_init :: "pyval \<Rightarrow> pyval \<Rightarrow> pyval \<Rightarrow> pyval \<Rightarrow> exn + obj" where
  "TimeSeriesOutcome_init name kind var_name func =
     (case AbstractOutcome_init \<lparr>cls = TimeSeriesOutcome, dict = []\<rparr> name kind var_name func of
        Inl e \<Rightarrow> Inl e
      | Inr self \<Rightarrow>
          if \<not> (getattr self ''kind'' = Some INFO) \<and> \<not> callable reduce
          then Inl (ValueError
                 ''reduce needs to be specified when using TimeSeriesOutcome in optimization'')
          else Inr self)"

text \<open>
  The deprecated factory \<^verbatim>\<open>Outcome(name, time=False)\<close>: the warnings it emits, and
  what it returns.
\<close>

definition Outcome :: "pyval \<Rightarrow> bool \<Rightarrow> string list \<times> (exn + obj)" where
  "Outcome name time =
     (if time
      then ([''Deprecated, use TimeSeriesOutcome instead''],
            ScalarOutcome_init name INFO PNone PNone)
      else ([''Deprecated, use ScalarOutcome instead''],
            TimeSeriesOutcome_init name INFO PNone PNone))"

section \<open>Post-processing: \<^verbatim>\<open>process\<close>\<close>

text \<open>
  The dictionary comprehension
  \<^verbatim>\<open>{var_names[i]:values[i] for i in range(len(var_names))}\<close>. Python 2 evaluates
  the value of an item before its key; a key that cannot be hashed raises
  \<^verbatim>\<open>TypeError\<close>, and a key that is already there gets the new value.
\<close>

fun dict_comp ::
  "pyval \<Rightarrow> pyval \<Rightarrow> nat list \<Rightarrow> (pyval \<times> pyval) list \<Rightarrow> exn + (pyval \<times> pyval) list" where
  "dict_comp var_names vals [] d = Inr d"
| "dict_comp var_names vals (i # js) d =
     (case py_getitem vals i of
        Inl e \<Rightarrow> Inl e
      | Inr v \<Rightarrow>
          (case py_getitem var_names i of
             Inl e \<Rightarrow> Inl e
           | Inr k \<Rightarrow>
               if \<not> py_hashable k then Inl (TypeError ''unhashable type'')
               else dict_comp var_names vals js (AList.update k v d)))"

text \<open>\<^verbatim>\<open>self.function(...)\<close>: the attribute is looked up, then called.\<close>

definition call_function ::
  "fenv \<Rightarrow> obj \<Rightarrow> pyval list \<Rightarrow> (pyval \<times> pyval) list \<Rightarrow> exn + pyval" where
  "call_function fe self args kwargs =
     (case getattr self ''function'' of
        None \<Rightarrow> Inl (AttributeError ''function'')
      | Some f \<Rightarrow> py_call fe f args kwargs)"

text \<open>
  The body of the outer \<^verbatim>\<open>try\<close> of \<^verbatim>\<open>process\<close>. The inner handler of the
  comprehension prints the \<^verbatim>\<open>TypeError\<close> and raises it again; the printed line is not
  part of the result and is left out.
\<close>

definition process_try :: "fenv \<Rightarrow> obj \<Rightarrow> pyval \<Rightarrow> exn + pyval" where
  "process_try fe self vals =
     (case variable_name self of
        Inl e \<Rightarrow> Inl e
      | Inr var_names \<Rightarrow>
          if is_basestring var_names then call_function fe self [vals] []
          else
            (case py_len var_names of
               None \<Rightarrow> Inl (TypeError ''object has no len()'')
             | Some len_var \<Rightarrow>
                 (let len_val = py_len vals in
                  if Some len_var \<noteq> len_val
                  then Inl (ValueError (''number of variables is '' @ string_of_nat len_var @
                              '', number of outputs is '' @ format_len len_val))
                  else
                    (case dict_comp var_names vals [0..<len_var] [] of
                       Inl e \<Rightarrow> Inl e
                     | Inr kwargs \<Rightarrow> call_function fe self [] kwargs))))"

text \<open>\<^verbatim>\<open>process\<close>: a \<^verbatim>\<open>TypeError\<close> of the body is caught and \<^verbatim>\<open>values\<close> returned.\<close>

definition process :: "fenv \<Rightarrow> obj \<Rightarrow> pyval \<Rightarrow> exn + pyval" where
  "process fe self vals =
     (case process_try fe self vals of
        Inl (TypeError m) \<Rightarrow> Inr vals
      | r \<Rightarrow> r)"

section \<open>Equality: \<^verbatim>\<open>__eq__\<close>\<close>

text \<open>
  The \<^verbatim>\<open>all(...)\<close> over the keys of \<^verbatim>\<open>self.__dict__\<close>: it stops at the first key
  that fails, and \<^verbatim>\<open>getattr(self, key)\<close> raises when neither object has the
  attribute.
\<close>

fun all_equal :: "obj \<Rightarrow> obj \<Rightarrow> string list \<Rightarrow> exn + bool" where
  "all_equal self other [] = Inr True"
| "all_equal self other (key # keys) =
     (if hasattr self key = hasattr other key
      then (if \<not> hasattr self key then Inl (AttributeError key)
            else if getattr self key = getattr other key then all_equal self other keys
            else Inr False)
      else Inr False)"

definition outcome_eq :: "obj \<Rightarrow> obj \<Rightarrow> exn + bool" where
  "outcome_eq self other =
     (case all_equal self other (map fst (dict self)) of
        Inl e \<Rightarrow> Inl e
      | Inr comparison \<Rightarrow> Inr (comparison \<and> cls self = cls other))"

text \<open>
  The outcome definitions: what the two constructors return, and what the setter of
  \<^verbatim>\<open>variable_name\<close> makes of one.
\<close>

inductive outcome_definition :: "obj \<Rightarrow> bool" where
  scalar: "ScalarOutcome_init name kind var_name func = Inr self \<Longrightarrow> outcome_definition self"
| timeseries: "TimeSeriesOutcome_init name kind var_name func = Inr self \<Longrightarrow> outcome_definition self"
| setter: "outcome_definition self \<Longrightarrow> outcome_definition (variable_name_setter self v)"

section \<open>Bulk construction: \<^verbatim>\<open>create_outcomes\<close>\<close>

text \<open>
  A \<^verbatim>\<open>pandas.DataFrame\<close> as far as \<^verbatim>\<open>create_outcomes\<close> reads it: the column
  labels, and the rows in the order of \<^verbatim>\<open>iterrows\<close>, each with one cell per column.
  \<^verbatim>\<open>row[c]\<close> is the cell under the label \<^verbatim>\<open>c\<close>, and a \<^verbatim>\<open>Series\<close> of the
  cells when several columns have this label.
\<close>

record dataframe =
  columns :: "string list"
  rows :: "pyval list list"

datatype cell = Scalar pyval | Series "pyval list"

definition row_get :: "string list \<Rightarrow> pyval list \<Rightarrow> string \<Rightarrow> exn + cell" where
  "row_get cols row c =
     (case map snd (filter (\<lambda>lv. fst lv = c) (zip cols row)) of
        [] \<Rightarrow> Inl (OtherError ''KeyError'')
      | [v] \<Rightarrow> Inr (Scalar v)
      | v # w # vs \<Rightarrow> Inr (Series (v # w # vs)))"

text \<open>
  The argument \<^verbatim>\<open>outcomes\<close>: a path, a data frame, or something else that
  \<^verbatim>\<open>DataFrame.from_dict\<close> is to convert.
\<close>

datatype 'd outcomes_arg = Path string | Frame dataframe | Convertible 'd

text \<open>
  What a row yields: an outcome, or, for a name that is a \<^verbatim>\<open>Series\<close> (no value of
  the model), an outcome of the class that has this \<^verbatim>\<open>Series\<close> as its name and the
  defaults as its other attributes.
\<close>

datatype created = Created obj | Series_named outcome_class "pyval list"

definition construct_default :: "outcome_class \<Rightarrow> cell \<Rightarrow> exn + created" where
  "construct_default c name =
     (case name of
        Scalar n \<Rightarrow>
          (case (case c of
                   ScalarOutcome \<Rightarrow> ScalarOutcome_init n INFO PNone PNone
                 | TimeSeriesOutcome \<Rightarrow> TimeSeriesOutcome_init n INFO PNone PNone) of
             Inl e \<Rightarrow> Inl e
           | Inr self \<Rightarrow> Inr (Created self))
      | Series ns \<Rightarrow> Inr (Series_named c ns))"

text \<open>
  \<^verbatim>\<open>raise ValueError('unknown type for '+name)\<close>: the concatenation raises
  \<^verbatim>\<open>TypeError\<close> for a name that is no string; for a \<^verbatim>\<open>Series\<close> it is taken
  element by element, and the \<^verbatim>\<open>ValueError\<close> has a \<^verbatim>\<open>Series\<close> of messages.
\<close>

fun the_string :: "pyval \<Rightarrow> string" where
  "the_string (PStr s) = s"
| "the_string v = []"

fun unknown_type :: "cell \<Rightarrow> exn" where
  "unknown_type (Scalar (PStr s)) = ValueError (''unknown type for '' @ s)"
| "unknown_type (Scalar v) = TypeError ''cannot concatenate''"
| "unknown_type (Series vs) =
     (if list_all is_basestring vs
      then ValueErrorSeries (map (\<lambda>v. ''unknown type for '' @ the_string v) vs)
      else TypeError ''cannot concatenate'')"

text \<open>
  The loop over the rows. A type that is a \<^verbatim>\<open>Series\<close> makes the \<^verbatim>\<open>if\<close> raise:
  the comparison with \<^verbatim>\<open>'scalar'\<close> is a \<^verbatim>\<open>Series\<close> of truth values.
\<close>

fun create_loop :: "string list \<Rightarrow> pyval list list \<Rightarrow> created list \<Rightarrow> exn + created list" where
  "create_loop cols [] temp_outcomes = Inr temp_outcomes"
| "create_loop cols (row # rest) temp_outcomes =
     (case row_get cols row ''name'' of
        Inl e \<Rightarrow> Inl e
      | Inr name \<Rightarrow>
          (case row_get cols row ''type'' of
             Inl e \<Rightarrow> Inl e
           | Inr (Series ks) \<Rightarrow> Inl (ValueError ''The truth value of a Series is ambiguous'')
           | Inr (Scalar kind) \<Rightarrow>
               (case (if kind = PStr ''scalar'' then construct_default ScalarOutcome name
                      else if kind = PStr ''timeseries''
                        then construct_default TimeSeriesOutcome name
                      else Inl (unknown_type name)) of
                  Inl e \<Rightarrow> Inl e
                | Inr outcome \<Rightarrow> create_loop cols rest (temp_outcomes @ [outcome]))))"

text \<open>
  \<^verbatim>\<open>create_outcomes(outcomes, **kwargs)\<close>; \<open>read_csv\<close> and \<open>from_dict\<close> are the two
  functions of pandas it calls. Its first statement makes a data frame of the argument.
\<close>

definition to_dataframe ::
  "(string \<Rightarrow> 'k \<Rightarrow> exn + dataframe) \<Rightarrow> ('d \<Rightarrow> exn + dataframe) \<Rightarrow>
   'd outcomes_arg \<Rightarrow> 'k \<Rightarrow> exn + dataframe" where
  "to_dataframe read_csv from_dict outcomes kwargs =
     (case outcomes of
        Path p \<Rightarrow> read_csv p kwargs
      | Frame df \<Rightarrow> Inr df
      | Convertible d \<Rightarrow> from_dict d)"

definition create_outcomes ::
  "(string \<Rightarrow> 'k \<Rightarrow> exn + dataframe) \<Rightarrow> ('d \<Rightarrow> exn + dataframe) \<Rightarrow>
   'd outcomes_arg \<Rightarrow> 'k \<Rightarrow> exn + created list" where
  "create_outcomes read_csv from_dict outcomes kwargs =
     (case to_dataframe read_csv from_dict outcomes kwargs of
        Inl e \<Rightarrow> Inl e
      | Inr df \<Rightarrow>
          if ''name'' \<notin> set (columns df) then Inl (ValueError ''no name column in dataframe'')
          else if ''type'' \<notin> set (columns df) then Inl (ValueError ''no type column in dataframe'')
          else create_loop (columns df) (rows df) [])"

text \<open>The rows whose type the dispatch knows.\<close>

definition known_type :: "string list \<Rightarrow> pyval list \<Rightarrow> bool" where
  "known_type cols row =
     (row_get cols row ''type'' = Inr (Scalar (PStr ''scalar''))
      \<or> row_get cols row ''type'' = Inr (Scalar (PStr ''timeseries'')))"

section \<open>The spec's mapping, and an environment for the examples\<close>

text \<open>
  The mapping \<^verbatim>\<open>{n1: v1, ..., nk: vk}\<close> of the spec: the names zipped to the values
  in order, a later pair replacing an earlier one of the same name.
\<close>

definition zip_mapping :: "string list \<Rightarrow> pyval list \<Rightarrow> (string \<rightharpoonup> pyval)" where
  "zip_mapping names vs = foldl (\<lambda>m nv. m(fst nv \<mapsto> snd nv)) Map.empty (zip names vs)"

text \<open>
  Two callables for the examples: \<^verbatim>\<open>wrap = lambda v: [v]\<close> and
  \<^verbatim>\<open>pair = lambda a, b: [b, a]\<close>; calling any other name raises \<^verbatim>\<open>TypeError\<close>.
\<close>

definition example_fenv :: fenv where
  "example_fenv n args kwargs =
     (if n = ''wrap'' then
        (case args of
           [v] \<Rightarrow> Inr (PList [v])
         | _ \<Rightarrow> Inl (TypeError ''wrap() takes exactly 1 argument''))
      else if n = ''pair'' then
        (case (kwargs ''a'', kwargs ''b'') of
           (Some x, Some y) \<Rightarrow> Inr (PList [y, x])
         | _ \<Rightarrow> Inl (TypeError ''pair() takes exactly 2 arguments''))
      else Inl (TypeError ''bad operand type''))"

text \<open>
  The instance that \<^verbatim>\<open>ScalarOutcome('x', INFO, var_name, func)\<close> returns when it
  returns one.
\<close>

definition example_outcome :: "pyval \<Rightarrow> pyval \<Rightarrow> obj" where
  "example_outcome var_name func =
     \<lparr>cls = ScalarOutcome,
      dict = [(''name'', PStr ''x''), (''kind'', PInt 0),
              (''_variable_name'', var_name), (''function'', func)]\<rparr>"

text \<open>
  For the examples: no file can be read, and \<^verbatim>\<open>DataFrame.from_dict\<close> on a
  dictionary of equally long columns gives the frame with these columns.
\<close>

definition example_read_csv :: "string \<Rightarrow> unit \<Rightarrow> exn + dataframe" where
  "example_read_csv p kwargs = Inl (OtherError ''IOError'')"

definition example_from_dict :: "(string \<times> pyval list) list \<Rightarrow> exn + dataframe" where
  "example_from_dict d =
     (let n = (case d of [] \<Rightarrow> 0 | c # cs \<Rightarrow> length (snd c)) in
      if list_all (\<lambda>c. length (snd c) = n) d
      then Inr \<lparr>columns = map fst d, rows = map (\<lambda>i. map (\<lambda>c. snd c ! i) d) [0..<n]\<rparr>
      else Inl (ValueError ''arrays must all be same length''))"

section \<open>What the constructors build\<close>

lemma AbstractOutcome_init_Inr:
  assumes "AbstractOutcome_init \<lparr>cls = c, dict = []\<rparr> name kind var_name func = Inr self"
  shows "self = \<lparr>cls = c, dict = [(''name'', name), (''kind'', kind),
            (''_variable_name'', var_name), (''function'', func)]\<rparr>"
  using assms
  by (simp add: AbstractOutcome_init_def NamedObject_init_def setattr_def
      variable_name_setter_def Let_def split: if_splits sum.splits)

text \<open>
  The test of \<^verbatim>\<open>reduce\<close> never fails: the builtin is callable, whatever the kind.
\<close>

lemma TimeSeriesOutcome_init_eq:
  "TimeSeriesOutcome_init name kind var_name func =
     AbstractOutcome_init \<lparr>cls = TimeSeriesOutcome, dict = []\<rparr> name kind var_name func"
  by (simp add: TimeSeriesOutcome_init_def reduce_def split: sum.splits)

lemma ScalarOutcome_init_Inr:
  assumes "ScalarOutcome_init name kind var_name func = Inr self"
  shows "self = \<lparr>cls = ScalarOutcome, dict = [(''name'', name), (''kind'', kind),
            (''_variable_name'', var_name), (''function'', func)]\<rparr>"
  using assms unfolding ScalarOutcome_init_def by (rule AbstractOutcome_init_Inr)

lemma TimeSeriesOutcome_init_Inr:
  assumes "TimeSeriesOutcome_init name kind var_name func = Inr self"
  shows "self = \<lparr>cls = TimeSeriesOutcome, dict = [(''name'', name), (''kind'', kind),
            (''_variable_name'', var_name), (''function'', func)]\<rparr>"
  using assms unfolding TimeSeriesOutcome_init_eq by (rule AbstractOutcome_init_Inr)

lemma AbstractOutcome_init_falsy:
  assumes "\<not> py_truthy v" and "func = PNone \<or> callable func"
  shows "AbstractOutcome_init \<lparr>cls = c, dict = []\<rparr> name kind v func =
     Inr \<lparr>cls = c, dict = [(''name'', name), (''kind'', kind),
            (''_variable_name'', v), (''function'', func)]\<rparr>"
  using assms
  by (auto simp add: AbstractOutcome_init_def NamedObject_init_def setattr_def
      variable_name_setter_def Let_def)

section \<open>The deprecated factory\<close>

text \<open>
  C1. \<^verbatim>\<open>Outcome(name, time=True)\<close> is to return a \<^verbatim>\<open>TimeSeriesOutcome\<close> and
  \<^verbatim>\<open>Outcome(name, time=False)\<close> a \<^verbatim>\<open>ScalarOutcome\<close>, each with a deprecation
  notice. The notice is emitted in both cases, but the two returns are exchanged: with
  \<^verbatim>\<open>time\<close> true the function warns to use \<^verbatim>\<open>TimeSeriesOutcome\<close> and returns a
  \<^verbatim>\<open>ScalarOutcome\<close>, with \<^verbatim>\<open>time\<close> false it warns to use \<^verbatim>\<open>ScalarOutcome\<close>
  and returns a \<^verbatim>\<open>TimeSeriesOutcome\<close>.
\<close>

theorem Outcome_returns_swapped_class:
  "Outcome name True =
     ([''Deprecated, use TimeSeriesOutcome instead''],
      Inr \<lparr>cls = ScalarOutcome, dict = [(''name'', name), (''kind'', PInt 0),
             (''_variable_name'', PNone), (''function'', PNone)]\<rparr>)
   \<and> Outcome name False =
     ([''Deprecated, use ScalarOutcome instead''],
      Inr \<lparr>cls = TimeSeriesOutcome, dict = [(''name'', name), (''kind'', PInt 0),
             (''_variable_name'', PNone), (''function'', PNone)]\<rparr>)"
  by (simp add: Outcome_def TimeSeriesOutcome_init_eq ScalarOutcome_init_def
      AbstractOutcome_init_falsy INFO_def)

section \<open>Construction\<close>

text \<open>
  C2. A \<^verbatim>\<open>TimeSeriesOutcome\<close> whose kind is not \<^verbatim>\<open>INFO\<close> is to be refused when
  no reducing callable is available. The constructor takes no reducing callable, and the
  name it tests is the builtin: \<^verbatim>\<open>TimeSeriesOutcome('x', kind=MINIMIZE)\<close> is
  constructed.
\<close>

theorem TimeSeriesOutcome_MINIMIZE_no_reduce_constructs:
  "TimeSeriesOutcome_init (PStr ''x'') MINIMIZE PNone PNone =
     Inr \<lparr>cls = TimeSeriesOutcome, dict = [(''name'', PStr ''x''), (''kind'', PInt (- 1)),
            (''_variable_name'', PNone), (''function'', PNone)]\<rparr>"
  by (simp add: TimeSeriesOutcome_init_eq AbstractOutcome_init_falsy MINIMIZE_def)

text \<open>
  C9. With a falsy \<^verbatim>\<open>variable_name\<close> (and a function that is absent or callable)
  both constructors succeed without looking at the elements, the value is stored as it
  is, and the getter returns it; only for \<^verbatim>\<open>None\<close> does the getter return the name.
\<close>

theorem falsy_variable_name_stored:
  assumes "\<not> py_truthy v" and "func = PNone \<or> callable func"
  shows "\<exists>s t. ScalarOutcome_init name kind v func = Inr s
           \<and> TimeSeriesOutcome_init name kind v func = Inr t
           \<and> getattr s ''_variable_name'' = Some v
           \<and> getattr t ''_variable_name'' = Some v
           \<and> variable_name s = Inr (if v \<noteq> PNone then v else name)
           \<and> variable_name t = Inr (if v \<noteq> PNone then v else name)"
  using assms
  by (simp add: TimeSeriesOutcome_init_eq ScalarOutcome_init_def AbstractOutcome_init_falsy
      getattr_def find_attribute_def variable_name_def)

theorem falsy_variable_name_stored_witness:
  "\<not> py_truthy (PList []) \<and> (PNone = PNone \<or> callable PNone)
   \<and> (\<exists>s t. ScalarOutcome_init (PStr ''x'') INFO (PList []) PNone = Inr s
           \<and> TimeSeriesOutcome_init (PStr ''x'') INFO (PList []) PNone = Inr t
           \<and> getattr s ''_variable_name'' = Some (PList [])
           \<and> getattr t ''_variable_name'' = Some (PList [])
           \<and> variable_name s = Inr (PList [])
           \<and> variable_name t = Inr (PList []))"
proof -
  have h1: "\<not> py_truthy (PList [])" by simp
  have h2: "PNone = PNone \<or> callable PNone" by simp
  show ?thesis
    using h1 h2 falsy_variable_name_stored [OF h1 h2, of "PStr ''x''" INFO] by simp
qed

section \<open>Post-processing\<close>

lemma dict_comp_error_is_TypeError:
  assumes "dict_comp (PList names) vals js d = Inl e"
    and "py_len vals = Some n"
    and "\<forall>i\<in>set js. i < n \<and> i < length names"
  shows "\<exists>m. e = TypeError m"
  using assms
proof (induction js arbitrary: d)
  case Nil
  then show ?case by simp
next
  case (Cons i js)
  from Cons.prems(2) obtain s xs where "vals = PStr s \<or> vals = PList xs"
    by (cases vals) auto
  with Cons show ?case
    by (auto split: sum.splits if_splits)
qed

lemma example_outcome_variable_name:
  "v \<noteq> PNone \<Longrightarrow> variable_name (example_outcome v f) = Inr v"
  "variable_name (example_outcome PNone f) = Inr (PStr ''x'')"
  "getattr (example_outcome v f) ''function'' = Some f"
  by (simp_all add: variable_name_def example_outcome_def getattr_def find_attribute_def)

text \<open>
  C4. When \<^verbatim>\<open>variable_name\<close> is a list of names and the number of values differs
  from the number of names, or the values have no length, \<^verbatim>\<open>process\<close> raises the
  \<^verbatim>\<open>ValueError\<close> that reports both counts, whatever the function is.
\<close>

theorem process_arity_mismatch:
  assumes "variable_name self = Inr (PList names)"
    and "py_len vals \<noteq> Some (length names)"
  shows "process fe self vals =
     Inl (ValueError (''number of variables is '' @ string_of_nat (length names) @
            '', number of outputs is '' @ format_len (py_len vals)))"
  using assms by (auto simp add: process_def process_try_def Let_def)

theorem process_arity_mismatch_witness:
  "variable_name (example_outcome (PList [PStr ''a'', PStr ''b'']) (PFun ''pair''))
     = Inr (PList [PStr ''a'', PStr ''b''])
   \<and> py_len (PInt 7) \<noteq> Some (length [PStr ''a'', PStr ''b''])
   \<and> process example_fenv (example_outcome (PList [PStr ''a'', PStr ''b'']) (PFun ''pair''))
        (PInt 7) = Inl (ValueError ''number of variables is 2, number of outputs is None'')"
proof -
  have h1: "variable_name (example_outcome (PList [PStr ''a'', PStr ''b'']) (PFun ''pair''))
     = Inr (PList [PStr ''a'', PStr ''b''])"
    by (simp add: example_outcome_variable_name)
  have h2: "py_len (PInt 7) \<noteq> Some (length [PStr ''a'', PStr ''b''])" by simp
  show ?thesis
    using h1 h2 process_arity_mismatch [OF h1 h2, of example_fenv] by simp
qed

subsection \<open>The dictionary of named arguments\<close>

lemma update_string_keys:
  "list_all (\<lambda>kv. is_basestring (fst kv)) d \<Longrightarrow>
   list_all (\<lambda>kv. is_basestring (fst kv)) (AList.update (PStr n) v d)"
  by (induction d) auto

lemma str_key_update:
  "list_all (\<lambda>kv. is_basestring (fst kv)) d \<Longrightarrow>
   map str_key (AList.update (PStr n) v d) = AList.update n v (map str_key d)"
proof (induction d)
  case Nil
  then show ?case by simp
next
  case (Cons kv d)
  obtain k w where kv: "kv = (k, w)" by (cases kv)
  with Cons.prems obtain s where "k = PStr s" by (cases k) auto
  with kv Cons show ?case by simp
qed

lemma dict_comp_strings:
  assumes "\<forall>i\<in>set js. i < length names" and "length vs = length names"
  shows "dict_comp (PList (map PStr names)) (PList vs) js d =
     Inr (foldl (\<lambda>d i. AList.update (PStr (names ! i)) (vs ! i) d) d js)"
  using assms by (induction js arbitrary: d) simp_all

lemma foldl_update_string_keys:
  "list_all (\<lambda>kv. is_basestring (fst kv)) d \<Longrightarrow>
   list_all (\<lambda>kv. is_basestring (fst kv))
     (foldl (\<lambda>d i. AList.update (PStr (names ! i)) (vs ! i) d) d js)"
  by (induction js arbitrary: d) (simp_all add: update_string_keys)

lemma foldl_update_map_of:
  "list_all (\<lambda>kv. is_basestring (fst kv)) d \<Longrightarrow>
   map_of (map str_key (foldl (\<lambda>d i. AList.update (PStr (names ! i)) (vs ! i) d) d js)) =
   foldl (\<lambda>m i. m(names ! i \<mapsto> vs ! i)) (map_of (map str_key d)) js"
  by (induction js arbitrary: d)
    (simp_all add: update_string_keys str_key_update update_conv')

lemma zip_mapping_upt:
  assumes "length vs = length names"
  shows "zip_mapping names vs =
     foldl (\<lambda>m i. m(names ! i \<mapsto> vs ! i)) Map.empty [0..<length names]"
proof -
  have "zip names vs = map (\<lambda>i. (names ! i, vs ! i)) [0..<length names]"
    using assms by (intro nth_equalityI) simp_all
  then show ?thesis
    by (simp add: zip_mapping_def foldl_map)
qed

text \<open>
  C5. With \<^verbatim>\<open>variable_name\<close> a list of names, a callable function and as many
  values as names, \<^verbatim>\<open>process\<close> calls the function with no positional argument and
  with the names zipped to the values as named arguments, and its outcome is the outcome
  of that call: the value returned, or the exception raised when that is no
  \<^verbatim>\<open>TypeError\<close> (a \<^verbatim>\<open>TypeError\<close> is caught, see C7).
\<close>

theorem process_multi_variable:
  assumes "variable_name self = Inr (PList (map PStr names))"
    and "getattr self ''function'' = Some (PFun f)"
    and "length vs = length names"
    and "\<forall>m. fe f [] (zip_mapping names vs) \<noteq> Inl (TypeError m)"
  shows "process fe self (PList vs) = fe f [] (zip_mapping names vs)"
proof -
  let ?kw = "foldl (\<lambda>d i. AList.update (PStr (names ! i)) (vs ! i) d) [] [0..<length names]"
  have dc: "dict_comp (PList (map PStr names)) (PList vs) [0..<length names] [] = Inr ?kw"
    using assms(3) by (intro dict_comp_strings) simp_all
  have keys: "list_all (\<lambda>kv. is_basestring (fst kv)) ?kw"
    by (intro foldl_update_string_keys) simp
  have "map_of (map str_key ?kw) = zip_mapping names vs"
    using assms(3) by (simp add: foldl_update_map_of zip_mapping_upt)
  with keys assms(2) have "call_function fe self [] ?kw = fe f [] (zip_mapping names vs)"
    by (simp add: call_function_def py_call_def)
  with dc assms(1,3) have "process_try fe self (PList vs) = fe f [] (zip_mapping names vs)"
    by (simp add: process_try_def)
  with assms(4) show ?thesis
    by (auto simp add: process_def split: sum.splits exn.splits)
qed

theorem process_multi_variable_witness:
  "variable_name (example_outcome (PList (map PStr [''a'', ''b''])) (PFun ''pair''))
     = Inr (PList (map PStr [''a'', ''b'']))
   \<and> getattr (example_outcome (PList (map PStr [''a'', ''b''])) (PFun ''pair'')) ''function''
     = Some (PFun ''pair'')
   \<and> length [PInt 1, PInt 2] = length [''a'', ''b'']
   \<and> (\<forall>m. example_fenv ''pair'' [] (zip_mapping [''a'', ''b''] [PInt 1, PInt 2])
            \<noteq> Inl (TypeError m))
   \<and> process example_fenv (example_outcome (PList (map PStr [''a'', ''b''])) (PFun ''pair''))
        (PList [PInt 1, PInt 2]) = Inr (PList [PInt 2, PInt 1])"
proof -
  have h1: "variable_name (example_outcome (PList (map PStr [''a'', ''b''])) (PFun ''pair''))
     = Inr (PList (map PStr [''a'', ''b'']))"
    by (simp add: example_outcome_variable_name)
  have h2: "getattr (example_outcome (PList (map PStr [''a'', ''b''])) (PFun ''pair''))
     ''function'' = Some (PFun ''pair'')"
    by (simp add: example_outcome_variable_name)
  have h3: "length [PInt 1, PInt 2] = length [''a'', ''b'']" by simp
  have e: "example_fenv ''pair'' [] (zip_mapping [''a'', ''b''] [PInt 1, PInt 2])
     = Inr (PList [PInt 2, PInt 1])"
    by (simp add: example_fenv_def zip_mapping_def)
  then have h4: "\<forall>m. example_fenv ''pair'' [] (zip_mapping [''a'', ''b''] [PInt 1, PInt 2])
     \<noteq> Inl (TypeError m)"
    by simp
  show ?thesis
    using h1 h2 h3 h4 e
      process_multi_variable
        [where self = "example_outcome (PList (map PStr [''a'', ''b''])) (PFun ''pair'')"
          and names = "[''a'', ''b'']" and f = "''pair''" and fe = example_fenv
          and vs = "[PInt 1, PInt 2]"]
    by simp
qed

text \<open>
  C6. With \<^verbatim>\<open>variable_name\<close> a single string and a callable function,
  \<^verbatim>\<open>process\<close> calls the function with the values as the only positional argument,
  and its outcome is the outcome of that call: the value returned, or the exception
  raised when that is no \<^verbatim>\<open>TypeError\<close> (a \<^verbatim>\<open>TypeError\<close> is caught, see C7).
\<close>

theorem process_single_variable:
  assumes "variable_name self = Inr (PStr s)"
    and "getattr self ''function'' = Some (PFun f)"
    and "\<forall>m. fe f [vals] Map.empty \<noteq> Inl (TypeError m)"
  shows "process fe self vals = fe f [vals] Map.empty"
  using assms
  by (auto simp add: process_def process_try_def call_function_def py_call_def
      split: sum.splits exn.splits)

theorem process_single_variable_witness:
  "variable_name (example_outcome PNone (PFun ''wrap'')) = Inr (PStr ''x'')
   \<and> getattr (example_outcome PNone (PFun ''wrap'')) ''function'' = Some (PFun ''wrap'')
   \<and> (\<forall>m. example_fenv ''wrap'' [PInt 5] Map.empty \<noteq> Inl (TypeError m))
   \<and> process example_fenv (example_outcome PNone (PFun ''wrap'')) (PInt 5)
       = Inr (PList [PInt 5])"
proof -
  have h1: "variable_name (example_outcome PNone (PFun ''wrap'')) = Inr (PStr ''x'')"
    by (simp add: example_outcome_variable_name)
  have h2: "getattr (example_outcome PNone (PFun ''wrap'')) ''function'' = Some (PFun ''wrap'')"
    by (simp add: example_outcome_variable_name)
  have h3: "\<forall>m. example_fenv ''wrap'' [PInt 5] Map.empty \<noteq> Inl (TypeError m)"
    by (simp add: example_fenv_def)
  show ?thesis
    using h1 h2 h3
      process_single_variable [where self = "example_outcome PNone (PFun ''wrap'')"
        and s = "''x''" and f = "''wrap''" and fe = example_fenv and vals = "PInt 5"]
    by (simp add: example_fenv_def)
qed

text \<open>
  C7, as amended. An outcome without a function returns the values unchanged, unless
  \<^verbatim>\<open>variable_name\<close> is a list of names whose length is not the number of values
  (the check of the counts comes first, C10). And whenever the call of the function
  raises \<^verbatim>\<open>TypeError\<close>, with the positional argument or with the named arguments
  after the counts have been found equal, \<^verbatim>\<open>process\<close> returns the values unchanged.
\<close>

theorem process_identity_fallback:
  "(getattr self ''function'' = Some PNone \<longrightarrow> variable_name self = Inr vn \<longrightarrow>
      (\<forall>names. vn = PList names \<longrightarrow> py_len vals = Some (length names)) \<longrightarrow>
      process fe self vals = Inr vals)
   \<and> (variable_name self = Inr (PStr s) \<longrightarrow>
        call_function fe self [vals] [] = Inl (TypeError m) \<longrightarrow>
        process fe self vals = Inr vals)
   \<and> (variable_name self = Inr (PList names) \<longrightarrow>
        dict_comp (PList names) vals [0..<length names] [] = Inr kwargs \<longrightarrow>
        py_len vals = Some (length names) \<longrightarrow>
        call_function fe self [] kwargs = Inl (TypeError m) \<longrightarrow>
        process fe self vals = Inr vals)"
proof (intro conjI impI)
  assume f: "getattr self ''function'' = Some PNone"
    and v: "variable_name self = Inr vn"
    and l: "\<forall>names. vn = PList names \<longrightarrow> py_len vals = Some (length names)"
  have c: "call_function fe self args kw = Inl (TypeError ''object is not callable'')" for args kw
    using f by (simp add: call_function_def py_call_def)
  show "process fe self vals = Inr vals"
  proof (cases vn)
    case (PList names)
    with l have len: "py_len vals = Some (length names)" by simp
    show ?thesis
    proof (cases "dict_comp (PList names) vals [0..<length names] []")
      case (Inl e)
      with len have "\<exists>m. e = TypeError m"
        by (intro dict_comp_error_is_TypeError [OF Inl len]) simp
      with Inl v PList len show ?thesis
        by (auto simp add: process_def process_try_def)
    next
      case (Inr kw)
      with v PList len c show ?thesis
        by (simp add: process_def process_try_def)
    qed
  qed (use v c in \<open>simp_all add: process_def process_try_def\<close>)
next
  assume "variable_name self = Inr (PStr s)"
    and "call_function fe self [vals] [] = Inl (TypeError m)"
  then show "process fe self vals = Inr vals"
    by (simp add: process_def process_try_def)
next
  assume "variable_name self = Inr (PList names)"
    and "dict_comp (PList names) vals [0..<length names] [] = Inr kwargs"
    and "py_len vals = Some (length names)"
    and "call_function fe self [] kwargs = Inl (TypeError m)"
  then show "process fe self vals = Inr vals"
    by (simp add: process_def process_try_def)
qed

theorem process_identity_fallback_witness:
  "process example_fenv (example_outcome (PList [PStr ''a'', PStr ''b'']) PNone)
       (PList [PInt 1, PInt 2]) = Inr (PList [PInt 1, PInt 2])
   \<and> process example_fenv (example_outcome PNone (PFun ''pair'')) (PInt 5) = Inr (PInt 5)
   \<and> process example_fenv (example_outcome (PList [PStr ''a'', PStr ''b'']) (PFun ''wrap''))
       (PList [PInt 1, PInt 2]) = Inr (PList [PInt 1, PInt 2])"
proof -
  let ?ab = "[PStr ''a'', PStr ''b'']"
  let ?vals = "PList [PInt 1, PInt 2]"
  have a1: "getattr (example_outcome (PList ?ab) PNone) ''function'' = Some PNone"
    by (simp add: example_outcome_variable_name)
  have a2: "variable_name (example_outcome (PList ?ab) PNone) = Inr (PList ?ab)"
    by (simp add: example_outcome_variable_name)
  have a3: "\<forall>names. PList ?ab = PList names \<longrightarrow> py_len ?vals = Some (length names)"
    by simp
  have p1: "process example_fenv (example_outcome (PList ?ab) PNone) ?vals = Inr ?vals"
    using process_identity_fallback
      [of "example_outcome (PList ?ab) PNone" "PList ?ab" ?vals example_fenv] a1 a2 a3
    by blast
  have b1: "variable_name (example_outcome PNone (PFun ''pair'')) = Inr (PStr ''x'')"
    by (simp add: example_outcome_variable_name)
  have b2: "call_function example_fenv (example_outcome PNone (PFun ''pair'')) [PInt 5] []
     = Inl (TypeError ''pair() takes exactly 2 arguments'')"
    by (simp add: call_function_def example_outcome_variable_name py_call_def example_fenv_def)
  have p2: "process example_fenv (example_outcome PNone (PFun ''pair'')) (PInt 5) = Inr (PInt 5)"
    using process_identity_fallback
      [of "example_outcome PNone (PFun ''pair'')" _ "PInt 5" example_fenv "''x''"
        "''pair() takes exactly 2 arguments''"] b1 b2
    by blast
  have c1: "variable_name (example_outcome (PList ?ab) (PFun ''wrap'')) = Inr (PList ?ab)"
    by (simp add: example_outcome_variable_name)
  have c2: "dict_comp (PList ?ab) ?vals [0..<length ?ab] []
     = Inr [(PStr ''a'', PInt 1), (PStr ''b'', PInt 2)]"
    by (simp add: upt_rec)
  have c3: "py_len ?vals = Some (length ?ab)" by simp
  have c4: "call_function example_fenv (example_outcome (PList ?ab) (PFun ''wrap'')) []
       [(PStr ''a'', PInt 1), (PStr ''b'', PInt 2)]
     = Inl (TypeError ''wrap() takes exactly 1 argument'')"
    by (simp add: call_function_def example_outcome_variable_name py_call_def example_fenv_def)
  have p3: "process example_fenv (example_outcome (PList ?ab) (PFun ''wrap'')) ?vals = Inr ?vals"
    using process_identity_fallback
      [of "example_outcome (PList ?ab) (PFun ''wrap'')" _ ?vals example_fenv _
        "''wrap() takes exactly 1 argument''" ?ab "[(PStr ''a'', PInt 1), (PStr ''b'', PInt 2)]"]
      c1 c2 c3 c4
    by blast
  from p1 p2 p3 show ?thesis by simp
qed

text \<open>
  The claim C7 as it is written fails for an outcome without a function whose two names
  meet one value: \<^verbatim>\<open>process\<close> raises \<^verbatim>\<open>ValueError\<close>.
\<close>

theorem process_no_function_arity_counterexample:
  "ScalarOutcome_init (PStr ''x'') INFO (PList [PStr ''a'', PStr ''b'']) PNone
     = Inr (example_outcome (PList [PStr ''a'', PStr ''b'']) PNone)
   \<and> process example_fenv (example_outcome (PList [PStr ''a'', PStr ''b'']) PNone)
        (PList [PInt 1]) = Inl (ValueError ''number of variables is 2, number of outputs is 1'')
   \<and> process example_fenv (example_outcome (PList [PStr ''a'', PStr ''b'']) PNone)
        (PList [PInt 1]) \<noteq> Inr (PList [PInt 1])"
  by (simp add: ScalarOutcome_init_def AbstractOutcome_init_def NamedObject_init_def
      setattr_def variable_name_setter_def example_outcome_def INFO_def
      process_def process_try_def variable_name_def getattr_def find_attribute_def)

text \<open>
  C10. For an outcome constructed with a list of names and without a function, a number
  of values that differs from the number of names makes \<^verbatim>\<open>process\<close> raise
  \<^verbatim>\<open>ValueError\<close>; the values are not returned.
\<close>

theorem arity_check_before_fallback:
  assumes "ScalarOutcome_init name kind (PList names) PNone = Inr self
         \<or> TimeSeriesOutcome_init name kind (PList names) PNone = Inr self"
    and "py_len vals \<noteq> Some (length names)"
  shows "(\<exists>m. process fe self vals = Inl (ValueError m)) \<and> process fe self vals \<noteq> Inr vals"
proof -
  from assms(1) have "dict self = [(''name'', name), (''kind'', kind),
      (''_variable_name'', PList names), (''function'', PNone)]"
    by (auto dest: ScalarOutcome_init_Inr TimeSeriesOutcome_init_Inr)
  then have "variable_name self = Inr (PList names)"
    by (simp add: variable_name_def getattr_def find_attribute_def)
  with assms(2) show ?thesis
    by (auto simp add: process_def process_try_def Let_def)
qed

theorem arity_check_before_fallback_witness:
  "(ScalarOutcome_init (PStr ''x'') INFO (PList [PStr ''a'', PStr ''b'']) PNone
      = Inr (example_outcome (PList [PStr ''a'', PStr ''b'']) PNone)
    \<or> TimeSeriesOutcome_init (PStr ''x'') INFO (PList [PStr ''a'', PStr ''b'']) PNone
      = Inr (example_outcome (PList [PStr ''a'', PStr ''b'']) PNone))
   \<and> py_len (PList [PInt 1, PInt 2, PInt 3]) \<noteq> Some (length [PStr ''a'', PStr ''b''])
   \<and> (\<exists>m. process example_fenv (example_outcome (PList [PStr ''a'', PStr ''b'']) PNone)
             (PList [PInt 1, PInt 2, PInt 3]) = Inl (ValueError m))
   \<and> process example_fenv (example_outcome (PList [PStr ''a'', PStr ''b'']) PNone)
        (PList [PInt 1, PInt 2, PInt 3]) \<noteq> Inr (PList [PInt 1, PInt 2, PInt 3])"
proof -
  have h1: "ScalarOutcome_init (PStr ''x'') INFO (PList [PStr ''a'', PStr ''b'']) PNone
      = Inr (example_outcome (PList [PStr ''a'', PStr ''b'']) PNone)
    \<or> TimeSeriesOutcome_init (PStr ''x'') INFO (PList [PStr ''a'', PStr ''b'']) PNone
      = Inr (example_outcome (PList [PStr ''a'', PStr ''b'']) PNone)"
    by (simp add: ScalarOutcome_init_def AbstractOutcome_init_def NamedObject_init_def
        setattr_def variable_name_setter_def example_outcome_def INFO_def)
  have h2: "py_len (PList [PInt 1, PInt 2, PInt 3]) \<noteq> Some (length [PStr ''a'', PStr ''b''])"
    by simp
  show ?thesis
    using h1 h2 arity_check_before_fallback [OF h1 h2, of example_fenv] by blast
qed

section \<open>Equality\<close>

lemma all_equal_True:
  "all_equal a b keys = Inr True \<longleftrightarrow>
     (\<forall>key\<in>set keys. hasattr a key \<and> hasattr b key \<and> getattr a key = getattr b key)"
  by (induction keys) auto

lemma all_equal_total:
  "\<forall>key\<in>set keys. hasattr a key \<Longrightarrow> \<exists>r. all_equal a b keys = Inr r"
  by (induction keys) auto

text \<open>An attribute of the own instance dictionary is there exactly when its lookup has a value.\<close>

lemma own_key_hasattr:
  assumes "key \<in> set (map fst (dict a))"
  shows "hasattr a key \<longleftrightarrow> getattr a key \<noteq> None"
proof (cases "key = ''variable_name''")
  case True
  then show ?thesis by (simp add: hasattr_def)
next
  case False
  from assms have "map_of (dict a) key \<noteq> None"
    by (simp add: map_of_eq_None_iff)
  with False show ?thesis
    by (auto simp add: hasattr_def getattr_def find_attribute_def)
qed

lemma outcome_eq_True:
  "outcome_eq a b = Inr True \<longleftrightarrow>
     cls a = cls b \<and>
     (\<forall>key\<in>set (map fst (dict a)). \<exists>v. getattr a key = Some v \<and> getattr b key = Some v)"
proof -
  have "outcome_eq a b = Inr True \<longleftrightarrow>
      all_equal a b (map fst (dict a)) = Inr True \<and> cls a = cls b"
    by (auto simp add: outcome_eq_def split: sum.splits)
  also have "all_equal a b (map fst (dict a)) = Inr True \<longleftrightarrow>
      (\<forall>key\<in>set (map fst (dict a)). \<exists>v. getattr a key = Some v \<and> getattr b key = Some v)"
    unfolding all_equal_True
  proof (intro ball_cong refl)
    fix key
    assume k: "key \<in> set (map fst (dict a))"
    have "getattr b key = Some v \<Longrightarrow> hasattr b key" for v
      by (simp add: hasattr_def)
    with own_key_hasattr [OF k]
    show "(hasattr a key \<and> hasattr b key \<and> getattr a key = getattr b key) \<longleftrightarrow>
        (\<exists>v. getattr a key = Some v \<and> getattr b key = Some v)"
      by auto
  qed
  finally show ?thesis by blast
qed

text \<open>
  Every outcome definition has the same four instance attributes, in the order in which
  the constructor stores them; the setter replaces a value and adds no key.
\<close>

lemma outcome_definition_keys:
  "outcome_definition self \<Longrightarrow>
   map fst (dict self) = [''name'', ''kind'', ''_variable_name'', ''function'']"
proof (induction rule: outcome_definition.induct)
  case (scalar name kind var_name func self)
  then show ?case by (auto dest: ScalarOutcome_init_Inr)
next
  case (timeseries name kind var_name func self)
  then show ?case by (auto dest: TimeSeriesOutcome_init_Inr)
next
  case (setter self v)
  then show ?case
    by (simp add: variable_name_setter_def setattr_def update_keys)
qed

lemma outcome_definition_hasattr:
  assumes "outcome_definition a" and "key \<in> set (map fst (dict a))"
  shows "hasattr a key"
proof -
  from assms have "key \<noteq> ''variable_name''"
    by (auto simp add: outcome_definition_keys)
  moreover from assms(2) have "map_of (dict a) key \<noteq> None"
    by (simp add: map_of_eq_None_iff)
  ultimately show ?thesis
    by (auto simp add: hasattr_def getattr_def find_attribute_def)
qed

text \<open>
  Two instances with the same instance attribute names that agree on them agree on every
  lookup.
\<close>

lemma same_attributes_same_lookup:
  assumes keys: "set (map fst (dict a)) = set (map fst (dict b))"
    and eq: "\<forall>key\<in>set (map fst (dict a)). key \<noteq> ''variable_name'' \<and>
               getattr a key = getattr b key"
  shows "getattr a = getattr b" and "hasattr a = hasattr b"
proof -
  have m: "map_of (dict a) key = map_of (dict b) key" for key
  proof (cases "key \<in> set (map fst (dict a))")
    case True
    with keys have "map_of (dict a) key \<noteq> None" and "map_of (dict b) key \<noteq> None"
      by (simp_all add: map_of_eq_None_iff)
    moreover from True eq have "key \<noteq> ''variable_name''" and "getattr a key = getattr b key"
      by blast+
    ultimately show ?thesis
      by (auto simp add: getattr_def find_attribute_def)
  next
    case False
    with keys show ?thesis
      by (simp add: map_of_eq_None_iff [THEN iffD2])
  qed
  then have f: "find_attribute a = find_attribute b"
    by (simp add: find_attribute_def fun_eq_iff)
  then have "variable_name a = variable_name b"
    unfolding variable_name_def by (simp only:)
  with f show g: "getattr a = getattr b"
    by (simp add: getattr_def fun_eq_iff)
  then show "hasattr a = hasattr b"
    by (simp add: hasattr_def fun_eq_iff)
qed

text \<open>
  C3, as amended. \<^verbatim>\<open>a == b\<close> holds exactly when \<open>a\<close> and \<open>b\<close> are of the same class
  and every attribute of the instance dictionary of \<open>a\<close> has a value that \<open>b\<close> has
  under the same name; what only \<open>b\<close> holds is not compared. So equality is symmetric
  for two instances with the same instance attribute names. The outcome definitions
  (what the constructors return and the setter leaves) are such instances: for them the
  comparison returns a truth value, is symmetric, and holds exactly when the class is the
  same and every attribute that one of the two has, both have, with equal values.
  Outcomes of different classes are never equal.
\<close>

theorem outcome_eq_own_attributes:
  "(outcome_eq a b = Inr True \<longleftrightarrow>
      cls a = cls b \<and>
      (\<forall>key\<in>set (map fst (dict a)). \<exists>v. getattr a key = Some v \<and> getattr b key = Some v))
   \<and> (set (map fst (dict a)) = set (map fst (dict b)) \<longrightarrow>
        (outcome_eq a b = Inr True \<longleftrightarrow> outcome_eq b a = Inr True))
   \<and> (outcome_definition a \<longrightarrow> outcome_definition b \<longrightarrow>
        (\<exists>r. outcome_eq a b = Inr r)
        \<and> (outcome_eq a b = Inr True \<longleftrightarrow> outcome_eq b a = Inr True)
        \<and> (outcome_eq a b = Inr True \<longleftrightarrow>
             cls a = cls b \<and>
             (\<forall>key. hasattr a key \<or> hasattr b key \<longrightarrow>
                hasattr a key \<and> hasattr b key \<and> getattr a key = getattr b key)))
   \<and> (cls a \<noteq> cls b \<longrightarrow> outcome_eq a b \<noteq> Inr True)"
proof (intro conjI impI)
  show "outcome_eq a b = Inr True \<longleftrightarrow>
      cls a = cls b \<and>
      (\<forall>key\<in>set (map fst (dict a)). \<exists>v. getattr a key = Some v \<and> getattr b key = Some v)"
    by (rule outcome_eq_True)
next
  assume "set (map fst (dict a)) = set (map fst (dict b))"
  then show "outcome_eq a b = Inr True \<longleftrightarrow> outcome_eq b a = Inr True"
    unfolding outcome_eq_True by auto
next
  assume d: "outcome_definition a" "outcome_definition b"
  then have ka: "map fst (dict a) = [''name'', ''kind'', ''_variable_name'', ''function'']"
    and kb: "map fst (dict b) = [''name'', ''kind'', ''_variable_name'', ''function'']"
    by (simp_all add: outcome_definition_keys)
  from d(1) have "\<forall>key\<in>set (map fst (dict a)). hasattr a key"
    by (simp add: outcome_definition_hasattr)
  from all_equal_total [OF this, of b] show "\<exists>r. outcome_eq a b = Inr r"
    by (auto simp add: outcome_eq_def)
  from ka kb show "outcome_eq a b = Inr True \<longleftrightarrow> outcome_eq b a = Inr True"
    unfolding outcome_eq_True by auto
  show "outcome_eq a b = Inr True \<longleftrightarrow>
      cls a = cls b \<and>
      (\<forall>key. hasattr a key \<or> hasattr b key \<longrightarrow>
         hasattr a key \<and> hasattr b key \<and> getattr a key = getattr b key)"
  proof
    assume e: "outcome_eq a b = Inr True"
    then have c: "cls a = cls b"
      and v: "\<forall>key\<in>set (map fst (dict a)). \<exists>v. getattr a key = Some v \<and> getattr b key = Some v"
      by (simp_all add: outcome_eq_True)
    have "set (map fst (dict a)) = set (map fst (dict b))"
      using ka kb by simp
    moreover have "\<forall>key\<in>set (map fst (dict a)). key \<noteq> ''variable_name'' \<and>
        getattr a key = getattr b key"
      using v ka by auto
    ultimately have "getattr a = getattr b" and "hasattr a = hasattr b"
      by (rule same_attributes_same_lookup)+
    with c show "cls a = cls b \<and>
      (\<forall>key. hasattr a key \<or> hasattr b key \<longrightarrow>
         hasattr a key \<and> hasattr b key \<and> getattr a key = getattr b key)"
      by simp
  next
    assume r: "cls a = cls b \<and>
      (\<forall>key. hasattr a key \<or> hasattr b key \<longrightarrow>
         hasattr a key \<and> hasattr b key \<and> getattr a key = getattr b key)"
    have "\<exists>v. getattr a key = Some v \<and> getattr b key = Some v"
      if k: "key \<in> set (map fst (dict a))" for key
    proof -
      from d(1) k have h: "hasattr a key" by (rule outcome_definition_hasattr)
      with own_key_hasattr [OF k] obtain v where "getattr a key = Some v" by auto
      with h r show ?thesis by auto
    qed
    with r show "outcome_eq a b = Inr True"
      by (simp add: outcome_eq_True)
  qed
next
  assume "cls a \<noteq> cls b"
  then show "outcome_eq a b \<noteq> Inr True"
    by (simp add: outcome_eq_True)
qed

theorem outcome_eq_own_attributes_witness:
  "set (map fst (dict (example_outcome PNone PNone)))
     = set (map fst (dict (example_outcome (PStr ''y'') PNone)))
   \<and> outcome_definition (example_outcome PNone PNone)
   \<and> outcome_definition (example_outcome PNone PNone\<lparr>cls := TimeSeriesOutcome\<rparr>)
   \<and> cls (example_outcome PNone PNone)
       \<noteq> cls (example_outcome PNone PNone\<lparr>cls := TimeSeriesOutcome\<rparr>)
   \<and> outcome_eq (example_outcome PNone PNone) (example_outcome PNone PNone) = Inr True
   \<and> outcome_eq (example_outcome PNone PNone) (example_outcome (PStr ''y'') PNone) = Inr False
   \<and> outcome_eq (example_outcome (PStr ''y'') PNone) (example_outcome PNone PNone) \<noteq> Inr True
   \<and> outcome_eq (example_outcome PNone PNone)
        (example_outcome PNone PNone\<lparr>cls := TimeSeriesOutcome\<rparr>) \<noteq> Inr True
   \<and> (\<exists>r. outcome_eq (example_outcome PNone PNone\<lparr>cls := TimeSeriesOutcome\<rparr>)
              (example_outcome PNone PNone) = Inr r)"
proof -
  let ?a = "example_outcome PNone PNone"
  let ?b = "example_outcome PNone PNone\<lparr>cls := TimeSeriesOutcome\<rparr>"
  let ?c = "example_outcome (PStr ''y'') PNone"
  have k: "set (map fst (dict ?a)) = set (map fst (dict ?c))"
    by (simp add: example_outcome_def)
  have "ScalarOutcome_init (PStr ''x'') INFO PNone PNone = Inr ?a"
    by (simp add: ScalarOutcome_init_def AbstractOutcome_init_falsy example_outcome_def INFO_def)
  then have h1: "outcome_definition ?a" by (rule outcome_definition.scalar)
  have "TimeSeriesOutcome_init (PStr ''x'') INFO PNone PNone = Inr ?b"
    by (simp add: TimeSeriesOutcome_init_eq AbstractOutcome_init_falsy example_outcome_def
        INFO_def)
  then have h2: "outcome_definition ?b" by (rule outcome_definition.timeseries)
  have c: "cls ?a \<noteq> cls ?b" by (simp add: example_outcome_def)
  have e1: "outcome_eq ?a ?a = Inr True" and e2: "outcome_eq ?a ?c = Inr False"
    by (simp_all add: outcome_eq_def example_outcome_def hasattr_def getattr_def
        find_attribute_def class_constants_def)
  show ?thesis
    using k h1 h2 c e1 e2
      outcome_eq_own_attributes [of ?a ?c] outcome_eq_own_attributes [of ?a ?b]
      outcome_eq_own_attributes [of ?b ?a]
    by simp
qed

text \<open>
  The claim C3 as it is written fails for an outcome and its copy with one more
  attribute (\<^verbatim>\<open>b.unit = 'm'\<close>): \<^verbatim>\<open>a == b\<close> holds although \<^verbatim>\<open>unit\<close> is present on
  \<open>b\<close> alone, and \<^verbatim>\<open>b == a\<close> does not hold.
\<close>

theorem outcome_eq_extra_attribute_counterexample:
  "outcome_eq (example_outcome PNone PNone)
     (setattr (example_outcome PNone PNone) ''unit'' (PStr ''m'')) = Inr True
   \<and> hasattr (setattr (example_outcome PNone PNone) ''unit'' (PStr ''m'')) ''unit''
   \<and> \<not> hasattr (example_outcome PNone PNone) ''unit''
   \<and> outcome_eq (setattr (example_outcome PNone PNone) ''unit'' (PStr ''m''))
       (example_outcome PNone PNone) = Inr False"
  by (simp add: outcome_eq_def example_outcome_def setattr_def hasattr_def getattr_def
      find_attribute_def class_constants_def class_members_def)

text \<open>
  An instance attribute that repeats a constant of the class (\<^verbatim>\<open>b.INFO = 0\<close>) is found
  on the other instance through its class, and the two are equal from both sides; with
  another value (\<^verbatim>\<open>b.INFO = 5\<close>), or under the name of a method
  (\<^verbatim>\<open>b.process = 5\<close>), they are equal from the left only.
\<close>

lemma outcome_eq_class_attribute:
  "outcome_eq (example_outcome PNone PNone)
     (setattr (example_outcome PNone PNone) ''INFO'' (PInt 0)) = Inr True"
  "outcome_eq (setattr (example_outcome PNone PNone) ''INFO'' (PInt 0))
     (example_outcome PNone PNone) = Inr True"
  "outcome_eq (setattr (example_outcome PNone PNone) ''INFO'' (PInt 5))
     (example_outcome PNone PNone) = Inr False"
  "outcome_eq (example_outcome PNone PNone)
     (setattr (example_outcome PNone PNone) ''process'' (PInt 5)) = Inr True"
  "outcome_eq (setattr (example_outcome PNone PNone) ''process'' (PInt 5))
     (example_outcome PNone PNone) = Inr False"
  by (simp_all add: outcome_eq_def example_outcome_def setattr_def hasattr_def getattr_def
      find_attribute_def class_constants_def class_members_def INFO_def MINIMIZE_def
      MAXIMIZE_def)

section \<open>Bulk construction\<close>

text \<open>With labels that are not repeated, a row has one cell under each label.\<close>

lemma filter_label:
  assumes "distinct cols" and "length row = length cols" and "c \<in> set cols"
  shows "\<exists>v. filter (\<lambda>lv. fst lv = c) (zip cols row) = [(c, v)]"
  using assms
proof (induction cols arbitrary: row)
  case Nil
  then show ?case by simp
next
  case (Cons l cols)
  then obtain v vs where row: "row = v # vs" by (cases row) auto
  show ?case
  proof (cases "l = c")
    case True
    with Cons.prems(1) have "c \<notin> set cols" by simp
    then have "filter (\<lambda>lv. fst lv = c) (zip cols vs) = []"
      by (auto simp add: filter_empty_conv dest: set_zip_leftD)
    with True row show ?thesis by simp
  next
    case False
    with Cons.prems row have "\<exists>w. filter (\<lambda>lv. fst lv = c) (zip cols vs) = [(c, w)]"
      by (intro Cons.IH) simp_all
    with False row show ?thesis by simp
  qed
qed

lemma row_get_column:
  assumes "distinct cols" and "length row = length cols" and "c \<in> set cols"
  shows "\<exists>v. row_get cols row c = Inr (Scalar v)"
proof -
  from filter_label [OF assms] obtain v where
    "filter (\<lambda>lv. fst lv = c) (zip cols row) = [(c, v)]" ..
  then show ?thesis by (simp add: row_get_def)
qed

lemma default_outcome:
  "ScalarOutcome_init name INFO PNone PNone =
     Inr \<lparr>cls = ScalarOutcome, dict = [(''name'', name), (''kind'', INFO),
            (''_variable_name'', PNone), (''function'', PNone)]\<rparr>"
  "TimeSeriesOutcome_init name INFO PNone PNone =
     Inr \<lparr>cls = TimeSeriesOutcome, dict = [(''name'', name), (''kind'', INFO),
            (''_variable_name'', PNone), (''function'', PNone)]\<rparr>"
  by (simp_all add: ScalarOutcome_init_def TimeSeriesOutcome_init_eq AbstractOutcome_init_falsy)

lemma create_loop_known:
  assumes "\<forall>r\<in>set rs. known_type cols r \<and> (\<exists>n. row_get cols r ''name'' = Inr (Scalar n))"
  shows "\<exists>outs. create_loop cols rs acc = Inr (acc @ outs) \<and> length outs = length rs \<and>
     (\<forall>i<length rs. \<forall>n. row_get cols (rs ! i) ''name'' = Inr (Scalar n) \<longrightarrow>
        (row_get cols (rs ! i) ''type'' = Inr (Scalar (PStr ''scalar'')) \<longrightarrow>
           (\<exists>self. ScalarOutcome_init n INFO PNone PNone = Inr self
              \<and> outs ! i = Created self)) \<and>
        (row_get cols (rs ! i) ''type'' = Inr (Scalar (PStr ''timeseries'')) \<longrightarrow>
           (\<exists>self. TimeSeriesOutcome_init n INFO PNone PNone = Inr self
              \<and> outs ! i = Created self)))"
  using assms
proof (induction rs arbitrary: acc)
  case Nil
  then show ?case by simp
next
  case (Cons r rs)
  from Cons.prems obtain n where n: "row_get cols r ''name'' = Inr (Scalar n)" by auto
  from Cons.prems have kt: "known_type cols r" by simp
  define out where "out = (if row_get cols r ''type'' = Inr (Scalar (PStr ''scalar''))
    then \<lparr>cls = ScalarOutcome, dict = [(''name'', n), (''kind'', INFO),
            (''_variable_name'', PNone), (''function'', PNone)]\<rparr>
    else \<lparr>cls = TimeSeriesOutcome, dict = [(''name'', n), (''kind'', INFO),
            (''_variable_name'', PNone), (''function'', PNone)]\<rparr>)"
  have step: "create_loop cols (r # rs) acc = create_loop cols rs (acc @ [Created out])"
    using n kt
    by (auto simp add: known_type_def construct_default_def default_outcome out_def)
  have outs: "(row_get cols r ''type'' = Inr (Scalar (PStr ''scalar'')) \<longrightarrow>
           ScalarOutcome_init n INFO PNone PNone = Inr out) \<and>
        (row_get cols r ''type'' = Inr (Scalar (PStr ''timeseries'')) \<longrightarrow>
           TimeSeriesOutcome_init n INFO PNone PNone = Inr out)"
    by (auto simp add: default_outcome out_def)
  from Cons.prems have
    "\<forall>r\<in>set rs. known_type cols r \<and> (\<exists>n. row_get cols r ''name'' = Inr (Scalar n))"
    by simp
  from Cons.IH [OF this, of "acc @ [Created out]"] obtain outs' where
    o1: "create_loop cols rs (acc @ [Created out]) = Inr ((acc @ [Created out]) @ outs')" and
    o2: "length outs' = length rs" and
    o3: "\<forall>i<length rs. \<forall>n. row_get cols (rs ! i) ''name'' = Inr (Scalar n) \<longrightarrow>
        (row_get cols (rs ! i) ''type'' = Inr (Scalar (PStr ''scalar'')) \<longrightarrow>
           (\<exists>self. ScalarOutcome_init n INFO PNone PNone = Inr self
              \<and> outs' ! i = Created self)) \<and>
        (row_get cols (rs ! i) ''type'' = Inr (Scalar (PStr ''timeseries'')) \<longrightarrow>
           (\<exists>self. TimeSeriesOutcome_init n INFO PNone PNone = Inr self
              \<and> outs' ! i = Created self))"
    by blast
  have "\<forall>i<length (r # rs). \<forall>m. row_get cols ((r # rs) ! i) ''name'' = Inr (Scalar m) \<longrightarrow>
        (row_get cols ((r # rs) ! i) ''type'' = Inr (Scalar (PStr ''scalar'')) \<longrightarrow>
           (\<exists>self. ScalarOutcome_init m INFO PNone PNone = Inr self
              \<and> (Created out # outs') ! i = Created self)) \<and>
        (row_get cols ((r # rs) ! i) ''type'' = Inr (Scalar (PStr ''timeseries'')) \<longrightarrow>
           (\<exists>self. TimeSeriesOutcome_init m INFO PNone PNone = Inr self
              \<and> (Created out # outs') ! i = Created self))"
  proof (intro allI impI)
    fix i m
    assume i: "i < length (r # rs)"
      and m: "row_get cols ((r # rs) ! i) ''name'' = Inr (Scalar m)"
    show "(row_get cols ((r # rs) ! i) ''type'' = Inr (Scalar (PStr ''scalar'')) \<longrightarrow>
           (\<exists>self. ScalarOutcome_init m INFO PNone PNone = Inr self
              \<and> (Created out # outs') ! i = Created self)) \<and>
        (row_get cols ((r # rs) ! i) ''type'' = Inr (Scalar (PStr ''timeseries'')) \<longrightarrow>
           (\<exists>self. TimeSeriesOutcome_init m INFO PNone PNone = Inr self
              \<and> (Created out # outs') ! i = Created self))"
    proof (cases i)
      case 0
      with m n outs show ?thesis by simp
    next
      case (Suc j)
      with i m o3 show ?thesis by simp
    qed
  qed
  with step o1 o2 show ?case
    by (intro exI [of _ "Created out # outs'"]) simp
qed

lemma create_loop_unknown:
  assumes "i < length rs"
    and "\<forall>j<i. known_type cols (rs ! j) \<and> (\<exists>n. row_get cols (rs ! j) ''name'' = Inr (Scalar n))"
    and "\<not> known_type cols (rs ! i)"
    and "row_get cols (rs ! i) ''name'' = Inr (Scalar n)"
    and "\<exists>k. row_get cols (rs ! i) ''type'' = Inr (Scalar k)"
  shows "create_loop cols rs acc = Inl (unknown_type (Scalar n))"
  using assms
proof (induction rs arbitrary: i acc)
  case Nil
  then show ?case by simp
next
  case (Cons r rs)
  show ?case
  proof (cases i)
    case 0
    with Cons.prems show ?thesis
      by (auto simp add: known_type_def)
  next
    case (Suc j)
    with Cons.prems(2)
    have "known_type cols r \<and> (\<exists>n. row_get cols r ''name'' = Inr (Scalar n))"
      by auto
    then obtain out where
      step: "create_loop cols (r # rs) acc = create_loop cols rs (acc @ [out])"
      by (auto simp add: known_type_def construct_default_def default_outcome)
    have "create_loop cols rs (acc @ [out]) = Inl (unknown_type (Scalar n))"
    proof (rule Cons.IH [of j])
      show "j < length rs" using Cons.prems(1) Suc by simp
      show "\<forall>k<j. known_type cols (rs ! k) \<and>
          (\<exists>n. row_get cols (rs ! k) ''name'' = Inr (Scalar n))"
        using Cons.prems(2) Suc by auto
      show "\<not> known_type cols (rs ! j)" using Cons.prems(3) Suc by simp
      show "row_get cols (rs ! j) ''name'' = Inr (Scalar n)" using Cons.prems(4) Suc by simp
      show "\<exists>k. row_get cols (rs ! j) ''type'' = Inr (Scalar k)" using Cons.prems(5) Suc by simp
    qed
    with step show ?thesis by simp
  qed
qed

text \<open>
  C8. For a table with a column \<^verbatim>\<open>name\<close> and a column \<^verbatim>\<open>type\<close> (no label
  repeated, each row with a cell for every column): when every row has the type
  \<^verbatim>\<open>scalar\<close> or \<^verbatim>\<open>timeseries\<close>, \<^verbatim>\<open>create_outcomes\<close> returns as many outcomes as
  there are rows, the outcome at the index of a row being \<^verbatim>\<open>ScalarOutcome(name)\<close> for
  \<^verbatim>\<open>scalar\<close> and \<^verbatim>\<open>TimeSeriesOutcome(name)\<close> for \<^verbatim>\<open>timeseries\<close>; and the first
  row of any other type makes the whole call fail, for a name that is a string with the
  \<^verbatim>\<open>ValueError\<close> whose message ends with this name (for another name the
  concatenation of the message raises \<^verbatim>\<open>TypeError\<close>).
\<close>

theorem create_outcomes_rows:
  assumes "to_dataframe read_csv from_dict outcomes kwargs = Inr df"
    and "''name'' \<in> set (columns df)" and "''type'' \<in> set (columns df)"
    and "distinct (columns df)"
    and "\<forall>r\<in>set (rows df). length r = length (columns df)"
  shows "((\<forall>r\<in>set (rows df). known_type (columns df) r) \<longrightarrow>
           (\<exists>outs. create_outcomes read_csv from_dict outcomes kwargs = Inr outs
              \<and> length outs = length (rows df)
              \<and> (\<forall>i<length (rows df). \<exists>n.
                    row_get (columns df) (rows df ! i) ''name'' = Inr (Scalar n) \<and>
                    (row_get (columns df) (rows df ! i) ''type''
                       = Inr (Scalar (PStr ''scalar'')) \<longrightarrow>
                       (\<exists>self. ScalarOutcome_init n INFO PNone PNone = Inr self
                          \<and> outs ! i = Created self)) \<and>
                    (row_get (columns df) (rows df ! i) ''type''
                       = Inr (Scalar (PStr ''timeseries'')) \<longrightarrow>
                       (\<exists>self. TimeSeriesOutcome_init n INFO PNone PNone = Inr self
                          \<and> outs ! i = Created self)))))
       \<and> (\<forall>i. i < length (rows df) \<longrightarrow>
             (\<forall>j<i. known_type (columns df) (rows df ! j)) \<longrightarrow>
             \<not> known_type (columns df) (rows df ! i) \<longrightarrow>
             (\<exists>n. row_get (columns df) (rows df ! i) ''name'' = Inr (Scalar n)
                \<and> create_outcomes read_csv from_dict outcomes kwargs
                   = Inl (if is_basestring n
                          then ValueError (''unknown type for '' @ the_string n)
                          else TypeError ''cannot concatenate'')))"
proof -
  have co: "create_outcomes read_csv from_dict outcomes kwargs
      = create_loop (columns df) (rows df) []"
    using assms(1-3) by (simp add: create_outcomes_def)
  have cell: "\<exists>v. row_get (columns df) r c = Inr (Scalar v)"
    if "r \<in> set (rows df)" and "c \<in> set (columns df)" for r c
    using that assms(4,5) by (intro row_get_column) simp_all
  have known: "\<exists>outs. create_outcomes read_csv from_dict outcomes kwargs = Inr outs
              \<and> length outs = length (rows df)
              \<and> (\<forall>i<length (rows df). \<exists>n.
                    row_get (columns df) (rows df ! i) ''name'' = Inr (Scalar n) \<and>
                    (row_get (columns df) (rows df ! i) ''type''
                       = Inr (Scalar (PStr ''scalar'')) \<longrightarrow>
                       (\<exists>self. ScalarOutcome_init n INFO PNone PNone = Inr self
                          \<and> outs ! i = Created self)) \<and>
                    (row_get (columns df) (rows df ! i) ''type''
                       = Inr (Scalar (PStr ''timeseries'')) \<longrightarrow>
                       (\<exists>self. TimeSeriesOutcome_init n INFO PNone PNone = Inr self
                          \<and> outs ! i = Created self)))"
    if "\<forall>r\<in>set (rows df). known_type (columns df) r"
  proof -
    from that cell assms(2) have "\<forall>r\<in>set (rows df). known_type (columns df) r \<and>
        (\<exists>n. row_get (columns df) r ''name'' = Inr (Scalar n))"
      by blast
    from create_loop_known [OF this, of "[]"] obtain outs where
      o1: "create_loop (columns df) (rows df) [] = Inr outs"
      and o2: "length outs = length (rows df)"
      and o3: "\<forall>i<length (rows df). \<forall>n.
          row_get (columns df) (rows df ! i) ''name'' = Inr (Scalar n) \<longrightarrow>
          (row_get (columns df) (rows df ! i) ''type'' = Inr (Scalar (PStr ''scalar'')) \<longrightarrow>
             (\<exists>self. ScalarOutcome_init n INFO PNone PNone = Inr self
                \<and> outs ! i = Created self)) \<and>
          (row_get (columns df) (rows df ! i) ''type''
             = Inr (Scalar (PStr ''timeseries'')) \<longrightarrow>
             (\<exists>self. TimeSeriesOutcome_init n INFO PNone PNone = Inr self
                \<and> outs ! i = Created self))"
      by auto
    have "\<exists>n. row_get (columns df) (rows df ! i) ''name'' = Inr (Scalar n) \<and>
          (row_get (columns df) (rows df ! i) ''type'' = Inr (Scalar (PStr ''scalar'')) \<longrightarrow>
             (\<exists>self. ScalarOutcome_init n INFO PNone PNone = Inr self
                \<and> outs ! i = Created self)) \<and>
          (row_get (columns df) (rows df ! i) ''type''
             = Inr (Scalar (PStr ''timeseries'')) \<longrightarrow>
             (\<exists>self. TimeSeriesOutcome_init n INFO PNone PNone = Inr self
                \<and> outs ! i = Created self))"
      if i: "i < length (rows df)" for i
    proof -
      from i cell assms(2) obtain n where
        "row_get (columns df) (rows df ! i) ''name'' = Inr (Scalar n)"
        by (metis nth_mem)
      with o3 i show ?thesis by blast
    qed
    with o1 o2 co show ?thesis by auto
  qed
  have unknown: "\<exists>n. row_get (columns df) (rows df ! i) ''name'' = Inr (Scalar n)
                \<and> create_outcomes read_csv from_dict outcomes kwargs
                   = Inl (if is_basestring n
                          then ValueError (''unknown type for '' @ the_string n)
                          else TypeError ''cannot concatenate'')"
    if "i < length (rows df)" and "\<forall>j<i. known_type (columns df) (rows df ! j)"
      and "\<not> known_type (columns df) (rows df ! i)" for i
  proof -
    have p: "\<forall>j<i. known_type (columns df) (rows df ! j) \<and>
        (\<exists>n. row_get (columns df) (rows df ! j) ''name'' = Inr (Scalar n))"
      using that(1,2) cell assms(2) by (metis nth_mem order_less_trans)
    have k: "\<exists>k. row_get (columns df) (rows df ! i) ''type'' = Inr (Scalar k)"
      using that(1) cell assms(3) by (metis nth_mem)
    from that(1) cell assms(2) obtain n where
      n: "row_get (columns df) (rows df ! i) ''name'' = Inr (Scalar n)"
      by (metis nth_mem)
    have "unknown_type (Scalar n) = (if is_basestring n
        then ValueError (''unknown type for '' @ the_string n)
        else TypeError ''cannot concatenate'')"
      by (cases n) simp_all
    with create_loop_unknown [OF that(1) p that(3) n k, of "[]"] co n
    show ?thesis by simp
  qed
  from known unknown show ?thesis by blast
qed

theorem create_outcomes_rows_witness:
  "(\<exists>outs. create_outcomes example_read_csv example_from_dict
        (Convertible [(''name'', [PStr ''a'', PStr ''b'']),
                      (''type'', [PStr ''scalar'', PStr ''timeseries''])]) ()
        = Inr outs
      \<and> length outs = 2
      \<and> (\<exists>self. ScalarOutcome_init (PStr ''a'') INFO PNone PNone = Inr self
            \<and> outs ! 0 = Created self)
      \<and> (\<exists>self. TimeSeriesOutcome_init (PStr ''b'') INFO PNone PNone = Inr self
            \<and> outs ! 1 = Created self))
   \<and> create_outcomes example_read_csv example_from_dict
        (Convertible [(''name'', [PStr ''a'']), (''type'', [PStr ''bogus''])]) ()
        = Inl (ValueError ''unknown type for a'')"
proof -
  let ?d1 = "[(''name'', [PStr ''a'', PStr ''b'']),
              (''type'', [PStr ''scalar'', PStr ''timeseries''])]"
  let ?f1 = "\<lparr>columns = [''name'', ''type''],
              rows = [[PStr ''a'', PStr ''scalar''], [PStr ''b'', PStr ''timeseries'']]\<rparr>"
  let ?d2 = "[(''name'', [PStr ''a'']), (''type'', [PStr ''bogus''])]"
  let ?f2 = "\<lparr>columns = [''name'', ''type''], rows = [[PStr ''a'', PStr ''bogus'']]\<rparr>"
  have a1: "to_dataframe example_read_csv example_from_dict (Convertible ?d1) () = Inr ?f1"
    by (simp add: to_dataframe_def example_from_dict_def upt_rec)
  have a2: "''name'' \<in> set (columns ?f1)" and a3: "''type'' \<in> set (columns ?f1)"
    and a4: "distinct (columns ?f1)"
    and a5: "\<forall>r\<in>set (rows ?f1). length r = length (columns ?f1)"
    by simp_all
  have a6: "\<forall>r\<in>set (rows ?f1). known_type (columns ?f1) r"
    by (simp add: known_type_def row_get_def)
  from create_outcomes_rows [OF a1 a2 a3 a4 a5] a6 obtain outs where
    o1: "create_outcomes example_read_csv example_from_dict (Convertible ?d1) () = Inr outs"
    and o2: "length outs = length (rows ?f1)"
    and o3: "\<forall>i<length (rows ?f1). \<exists>n.
          row_get (columns ?f1) (rows ?f1 ! i) ''name'' = Inr (Scalar n) \<and>
          (row_get (columns ?f1) (rows ?f1 ! i) ''type'' = Inr (Scalar (PStr ''scalar'')) \<longrightarrow>
             (\<exists>self. ScalarOutcome_init n INFO PNone PNone = Inr self
                \<and> outs ! i = Created self)) \<and>
          (row_get (columns ?f1) (rows ?f1 ! i) ''type''
             = Inr (Scalar (PStr ''timeseries'')) \<longrightarrow>
             (\<exists>self. TimeSeriesOutcome_init n INFO PNone PNone = Inr self
                \<and> outs ! i = Created self))"
    by blast
  from o3 [rule_format, of 0]
  have s: "\<exists>self. ScalarOutcome_init (PStr ''a'') INFO PNone PNone = Inr self
      \<and> outs ! 0 = Created self"
    by (simp add: row_get_def)
  from o3 [rule_format, of 1]
  have t: "\<exists>self. TimeSeriesOutcome_init (PStr ''b'') INFO PNone PNone = Inr self
      \<and> outs ! 1 = Created self"
    by (simp add: row_get_def)
  have b1: "to_dataframe example_read_csv example_from_dict (Convertible ?d2) () = Inr ?f2"
    by (simp add: to_dataframe_def example_from_dict_def upt_rec)
  have b2: "''name'' \<in> set (columns ?f2)" and b3: "''type'' \<in> set (columns ?f2)"
    and b4: "distinct (columns ?f2)"
    and b5: "\<forall>r\<in>set (rows ?f2). length r = length (columns ?f2)"
    by simp_all
  have b6: "\<not> known_type (columns ?f2) (rows ?f2 ! 0)"
    and b7: "row_get (columns ?f2) (rows ?f2 ! 0) ''name'' = Inr (Scalar (PStr ''a''))"
    by (simp_all add: known_type_def row_get_def)
  from create_outcomes_rows [OF b1 b2 b3 b4 b5] b6 b7
  have u: "create_outcomes example_read_csv example_from_dict (Convertible ?d2) ()
      = Inl (ValueError ''unknown type for a'')"
    by auto
  from o1 o2 s t u show ?thesis by simp
qed

text \<open>
  A label that is repeated: with two columns \<^verbatim>\<open>type\<close> the test of the type raises,
  and with two columns \<^verbatim>\<open>name\<close> the outcome is named by a \<^verbatim>\<open>Series\<close>.
\<close>

lemma create_outcomes_repeated_label:
  "create_outcomes example_read_csv example_from_dict
     (Frame \<lparr>columns = [''name'', ''type'', ''type''],
             rows = [[PStr ''a'', PStr ''scalar'', PStr ''scalar'']]\<rparr>) ()
     = Inl (ValueError ''The truth value of a Series is ambiguous'')"
  "create_outcomes example_read_csv example_from_dict
     (Frame \<lparr>columns = [''name'', ''name'', ''type''],
             rows = [[PStr ''a'', PStr ''b'', PStr ''scalar'']]\<rparr>) ()
     = Inr [Series_named ScalarOutcome [PStr ''a'', PStr ''b'']]"
  by (simp_all add: create_outcomes_def to_dataframe_def row_get_def construct_default_def)

end
